theory Spec2Isabelle
  imports Main "HOL-Library.Sublist"
begin

section \<open>Strings: the Python primitives used by the stream splitter\<close>

text \<open>
  A Python \<^verbatim>\<open>str\<close> is modelled as a \<^typ>\<open>string\<close> (a list of 8-bit characters).
  Among these characters the decimal digits that the regular expression class
  \<^verbatim>\<open>\d\<close> accepts are exactly \<^verbatim>\<open>0\<close> to \<^verbatim>\<open>9\<close>. Python integers are unbounded,
  so \<^verbatim>\<open>int(...)\<close> of a digit string is an \<^typ>\<open>int\<close>; the interpreter's configurable
  limit on the number of digits \<^verbatim>\<open>int\<close> converts (4300 by default since Python 3.11)
  is not modelled, an exit code having a few digits.
\<close>

definition newline :: char where
  "newline = CHR 0x0A"

definition is_nl :: "char \<Rightarrow> bool" where
  "is_nl c = (c = newline)"

text \<open>\<^verbatim>\<open>s.strip("\n")\<close>: newlines are removed at both ends, nothing else.\<close>

definition strip_nl :: "string \<Rightarrow> string" where
  "strip_nl s = rev (dropWhile is_nl (rev (dropWhile is_nl s)))"

text \<open>
  \<^verbatim>\<open>s.find(sub)\<close>: the lowest index at which \<^verbatim>\<open>sub\<close> occurs in \<^verbatim>\<open>s\<close>, or \<^verbatim>\<open>-1\<close>.
  \<open>find_index\<close> scans from the left; \<open>str_find\<close> gives Python's integer result.
\<close>

fun find_index :: "string \<Rightarrow> string \<Rightarrow> nat option" where
  "find_index sub [] = (if sub = [] then Some 0 else None)"
| "find_index sub (c # cs) =
     (if prefix sub (c # cs) then Some 0 else map_option Suc (find_index sub cs))"

definition str_find :: "string \<Rightarrow> string \<Rightarrow> int" where
  "str_find s sub = (case find_index sub s of None \<Rightarrow> - 1 | Some i \<Rightarrow> int i)"

definition is_digit :: "char \<Rightarrow> bool" where
  "is_digit c = (c \<in> set ''0123456789'')"

definition digit_val :: "char \<Rightarrow> int" where
  "digit_val c = int (of_char c) - 48"

text \<open>\<^verbatim>\<open>int(ds)\<close> for a non-empty string of decimal digits.\<close>

definition py_int :: "string \<Rightarrow> int" where
  "py_int ds = foldl (\<lambda>a c. 10 * a + digit_val c) 0 ds"

section \<open>The marker protocol\<close>

definition SETUP_START :: string where
  "SETUP_START = ''::setup:start::''"

text \<open>
  \<^verbatim>\<open>SETUP_END_PATTERN = re.compile(r"::setup:end:(\d+)::")\<close>. The pattern is a literal
  prefix, a greedy non-empty run of digits (group 1) and a literal suffix. A match at a
  given position takes the whole run of digits: after a shorter run the next character
  would be a digit, not the colon the suffix needs, so backtracking finds nothing else.
  \<open>match_end\<close> is the match anchored at the head of the string (length of the match and
  group 1); \<open>search_end\<close> is \<^verbatim>\<open>SETUP_END_PATTERN.search\<close>, the leftmost match, as
  (\<^verbatim>\<open>start()\<close>, \<^verbatim>\<open>end()\<close>, \<^verbatim>\<open>group(1)\<close>).
\<close>

definition SETUP_END_PREFIX :: string where
  "SETUP_END_PREFIX = ''::setup:end:''"

definition SETUP_END_SUFFIX :: string where
  "SETUP_END_SUFFIX = ''::''"

definition match_end :: "string \<Rightarrow> (nat \<times> string) option" where
  "match_end s =
     (if prefix SETUP_END_PREFIX s then
        (let r = drop (length SETUP_END_PREFIX) s;
             ds = takeWhile is_digit r
         in if ds \<noteq> [] \<and> prefix SETUP_END_SUFFIX (dropWhile is_digit r)
            then Some (length SETUP_END_PREFIX + length ds + length SETUP_END_SUFFIX, ds)
            else None)
      else None)"

fun search_end :: "string \<Rightarrow> (nat \<times> nat \<times> string) option" where
  "search_end [] = None"
| "search_end (c # cs) =
     (case match_end (c # cs) of
        Some (n, ds) \<Rightarrow> Some (0, n, ds)
      | None \<Rightarrow> map_option (\<lambda>(s, e, ds). (Suc s, Suc e, ds)) (search_end cs))"

section \<open>The stream splitter\<close>

text \<open>
  \<^verbatim>\<open>_split_stream(output)\<close> returns the pytest content, the setup content and the setup
  exit code (\<open>None\<close> when no start marker is present, \<open>-1\<close> when the end marker is
  missing).
\<close>

definition split_stream :: "string \<Rightarrow> string \<times> string \<times> int option" where
  "split_stream output =
     (let start_idx = str_find output SETUP_START in
      if start_idx = - 1 then (strip_nl output, [], None)
      else
        (let content_after_start = drop (nat (start_idx + int (length SETUP_START))) output in
         case search_end content_after_start of
           None \<Rightarrow> ([], strip_nl content_after_start, Some (- 1))
         | Some (s, e, g) \<Rightarrow>
             (let setup_content = strip_nl (take s content_after_start);
                  pytest_content = strip_nl (drop e content_after_start)
              in (pytest_content, setup_content, Some (py_int g)))))"

section \<open>Result records\<close>

text \<open>
  \<^verbatim>\<open>CommandResult\<close> and, extending it, \<^verbatim>\<open>UnitTestResult\<close>; \<^verbatim>\<open>returncode\<close> is
  \<^verbatim>\<open>int | None\<close>. \<^verbatim>\<open>SandboxResult\<close> is what the sandbox runner returns; its
  attributes \<^verbatim>\<open>stdout\<close> and \<^verbatim>\<open>stderr\<close> are the fields \<open>sb_stdout\<close> and \<open>sb_stderr\<close>
  here, since the fields of all records share one name space.
\<close>

record CommandResult =
  command :: "string list"
  returncode :: "int option"
  stdout :: string
  stderr :: string

record UnitTestResult = CommandResult +
  num_passed :: int
  num_failed :: int

record SandboxResult =
  exit_code :: int
  sb_stdout :: string
  sb_stderr :: string

text \<open>
  \<^verbatim>\<open>CommandResult.success\<close> is \<^verbatim>\<open>self.returncode == 0\<close>; in Python \<^verbatim>\<open>None == 0\<close>
  is false.
\<close>

definition success :: "'a CommandResult_scheme \<Rightarrow> bool" where
  "success r = (case returncode r of None \<Rightarrow> False | Some n \<Rightarrow> n = 0)"

section \<open>The result reconciler\<close>

definition parse_sandbox_result :: "SandboxResult \<Rightarrow> CommandResult \<times> CommandResult" where
  "parse_sandbox_result sandbox_result =
     (case split_stream (sb_stdout sandbox_result) of
        (pytest_stdout, setup_stdout, setup_stdout_code) \<Rightarrow>
     (case split_stream (sb_stderr sandbox_result) of
        (pytest_stderr, setup_stderr, setup_stderr_code) \<Rightarrow>
        (let setup_returncode =
               (if setup_stdout_code \<noteq> None then setup_stdout_code else setup_stderr_code);
             pytest_returncode = Some (exit_code sandbox_result);
             promote = (setup_returncode = Some (- 1) \<or> (pytest_stdout = [] \<and> pytest_stderr = []));
             setup_returncode' =
               (if promote then Some (exit_code sandbox_result) else setup_returncode);
             pytest_returncode' = (if promote then None else pytest_returncode)
         in (\<lparr>command = [], returncode = pytest_returncode',
               stdout = pytest_stdout, stderr = pytest_stderr\<rparr>,
             \<lparr>command = [], returncode = setup_returncode',
               stdout = setup_stdout, stderr = setup_stderr\<rparr>))))"

section \<open>The unit-test action\<close>

text \<open>
  Values a resolved parameter can hold. The action tests the sandbox parameter for
  truthiness and with \<^verbatim>\<open>isinstance(_, str)\<close>, so that parameter is a Python value; the
  other parameters are taken at their declared types.
\<close>

datatype pyval = PNone | PBool bool | PInt int | PStr string | PList "pyval list"

fun truthy :: "pyval \<Rightarrow> bool" where
  "truthy PNone = False"
| "truthy (PBool b) = b"
| "truthy (PInt i) = (i \<noteq> 0)"
| "truthy (PStr s) = (s \<noteq> [])"
| "truthy (PList xs) = (xs \<noteq> [])"

fun isinstance_str :: "pyval \<Rightarrow> bool" where
  "isinstance_str (PStr s) = True"
| "isinstance_str v = False"

datatype error =
    ValueError string
  | UnboundLocalError string
  | CollaboratorError string

text \<open>
  The collaborators the action calls, none of them part of these sources: the sandbox
  runner (\<^verbatim>\<open>SandboxRunner(name).run(...)\<close>), the parser of pytest's report and the local
  test run (which receives the directory and the file name the path is built from). Each
  may raise.
\<close>

record env =
  sandbox_run :: "string \<Rightarrow> string \<Rightarrow> string \<Rightarrow> string list \<Rightarrow> int \<Rightarrow> bool \<Rightarrow> error + SandboxResult"
  parse_python_unit_test_results :: "SandboxResult \<Rightarrow> error + UnitTestResult"
  run_python_unit_tests :: "string \<Rightarrow> string \<Rightarrow> error + UnitTestResult"

text \<open>
  What an invocation does to the outside, in order: the calls of the sandbox runner and
  of the local test run, and the values pushed to the item under a key.
\<close>

datatype pushed = UnitTest UnitTestResult | Command CommandResult

datatype effect =
    SandboxRun string string string "string list" int bool
  | LocalRun string string
  | Push string pushed

text \<open>
  The outcome of an invocation: its effects, the final state of the
  \<^verbatim>\<open>SandboxResult\<close> object the runner returned (if it returned one), and the exception
  that ended the invocation, if any.
\<close>

record outcome =
  effects :: "effect list"
  sandbox_obj :: "SandboxResult option"
  raised :: "error option"

text \<open>A local variable of the action is bound or not yet assigned.\<close>

datatype 'a local_var = Unbound | Bound 'a

definition pytest_command :: "string \<Rightarrow> string" where
  "pytest_command resolved_filename =
     ''python -m pytest -v '' @ [CHR 0x27] @ resolved_filename @ [CHR 0x27]"

text \<open>
  Lines 60 to 74: with a return code for pytest, the \<^verbatim>\<open>stdout\<close> and \<^verbatim>\<open>stderr\<close>
  attributes of the sandbox result are assigned the pytest slices, the object is handed to
  the parser and the parsed result's \<^verbatim>\<open>command\<close> is assigned; without one, a result
  with no counts is built. The function returns the sandbox result object as it is
  afterwards, and the result or the parser's exception.
\<close>

definition synthesize ::
  "env \<Rightarrow> string list \<Rightarrow> SandboxResult \<Rightarrow> CommandResult \<Rightarrow> SandboxResult \<times> (error + UnitTestResult)"
where
  "synthesize e cmd sandbox_result pytest_result =
     (if returncode pytest_result \<noteq> None then
        (let sandbox_result' =
               sandbox_result\<lparr>sb_stdout := stdout pytest_result,
                               sb_stderr := stderr pytest_result\<rparr>
         in case parse_python_unit_test_results e sandbox_result' of
              Inl err \<Rightarrow> (sandbox_result', Inl err)
            | Inr result \<Rightarrow> (sandbox_result', Inr (result\<lparr>command := cmd\<rparr>)))
      else
        (sandbox_result,
         Inr \<lparr>command = cmd, returncode = None,
              stdout = stdout pytest_result, stderr = stderr pytest_result,
              num_passed = 0, num_failed = 0\<rparr>))"

text \<open>
  Lines 79 to 82: the result is pushed under the property; then \<^verbatim>\<open>setup_result\<close> is
  read, which raises when the variable was never assigned, and the setup result is pushed
  when it is not \<^verbatim>\<open>None\<close> and the setup property is truthy.
\<close>

definition publish ::
  "effect list \<Rightarrow> SandboxResult option \<Rightarrow> string \<Rightarrow> string option \<Rightarrow> UnitTestResult \<Rightarrow>
   CommandResult option local_var \<Rightarrow> outcome"
where
  "publish effs sb resolved_property resolved_setup_property result setup_result =
     (let effs1 = effs @ [Push resolved_property (UnitTest result)] in
      case setup_result of
        Unbound \<Rightarrow>
          \<lparr>effects = effs1, sandbox_obj = sb,
           raised = Some (UnboundLocalError ''setup_result'')\<rparr>
      | Bound None \<Rightarrow> \<lparr>effects = effs1, sandbox_obj = sb, raised = None\<rparr>
      | Bound (Some r) \<Rightarrow>
          (case resolved_setup_property of
             None \<Rightarrow> \<lparr>effects = effs1, sandbox_obj = sb, raised = None\<rparr>
           | Some k \<Rightarrow>
               if k \<noteq> [] then
                 \<lparr>effects = effs1 @ [Push k (Command r)], sandbox_obj = sb, raised = None\<rparr>
               else \<lparr>effects = effs1, sandbox_obj = sb, raised = None\<rparr>))"

definition run_unit_tests_action ::
  "env \<Rightarrow> string \<Rightarrow> string \<Rightarrow> string \<Rightarrow> string option \<Rightarrow> pyval \<Rightarrow> bool \<Rightarrow> int \<Rightarrow> outcome"
where
  "run_unit_tests_action e resolved_filename resolved_dir resolved_property
       resolved_setup_property resolved_sandbox resolved_stream_logs resolved_timeout =
     (if truthy resolved_sandbox then
        (case resolved_sandbox of
           PStr name \<Rightarrow>
             (let cmd = [pytest_command resolved_filename];
                  effs = [SandboxRun name resolved_filename resolved_dir cmd
                            resolved_timeout resolved_stream_logs]
              in case sandbox_run e name resolved_filename resolved_dir cmd
                        resolved_timeout resolved_stream_logs of
                   Inl err \<Rightarrow> \<lparr>effects = effs, sandbox_obj = None, raised = Some err\<rparr>
                 | Inr sandbox_result \<Rightarrow>
                     (case parse_sandbox_result sandbox_result of
                        (pytest_result, setup_result) \<Rightarrow>
                     (case synthesize e cmd sandbox_result pytest_result of
                        (sandbox_result', Inl err) \<Rightarrow>
                          \<lparr>effects = effs, sandbox_obj = Some sandbox_result',
                           raised = Some err\<rparr>
                      | (sandbox_result', Inr result) \<Rightarrow>
                          publish effs (Some sandbox_result') resolved_property
                            resolved_setup_property result (Bound (Some setup_result)))))
         | _ \<Rightarrow>
             \<lparr>effects = [], sandbox_obj = None,
              raised = Some (ValueError ''Sandbox must be a string name of a sandbox'')\<rparr>)
      else
        (let effs = [LocalRun resolved_dir resolved_filename] in
         case run_python_unit_tests e resolved_dir resolved_filename of
           Inl err \<Rightarrow> \<lparr>effects = effs, sandbox_obj = None, raised = Some err\<rparr>
         | Inr result \<Rightarrow>
             publish effs None resolved_property resolved_setup_property result Unbound))"

section \<open>The pipeline lifecycle supervisor\<close>

text \<open>
  The state of a \<^verbatim>\<open>FullDisplayApp\<close> as far as quitting goes: the flag
  \<^verbatim>\<open>_is_quitting\<close>, the pipeline worker (absent before the app is mounted), the lines
  appended to the console service, the active top tab with the \<^verbatim>\<open>display\<close> flags of
  the pipeline tab and of the two panes, and counters of what the app has asked of the
  framework: delayed cancellations scheduled with \<^verbatim>\<open>call_later\<close>,
  \<^verbatim>\<open>worker.cancel()\<close> calls and \<^verbatim>\<open>exit()\<close> calls.
\<close>

datatype worker_state = WorkerPending | WorkerRunning | WorkerFinished
















section \<open>Collaborators for concrete runs\<close>

text \<open>
  Modelled from the spec: \<^verbatim>\<open>parse_python_unit_test_results\<close>, the parser of pytest's
  report, is not among the sources. The spec has it return a \<^verbatim>\<open>UnitTestResult\<close> with the
  pass and fail counts read from the report, plus the command, return code, stdout and
  stderr of what it is handed (the reconciled test result, whose command is empty). How
  the counts are read is not specified, so they are parameters here:
  \<open>report_parser passed failed\<close> is a parser that reads these two counts.
\<close>

definition report_parser :: "int \<Rightarrow> int \<Rightarrow> SandboxResult \<Rightarrow> error + UnitTestResult" where
  "report_parser passed failed r =
     Inr \<lparr>command = [], returncode = Some (exit_code r),
          stdout = sb_stdout r, stderr = sb_stderr r,
          num_passed = passed, num_failed = failed\<rparr>"

text \<open>
  To run the action on a concrete input its collaborators must be given. In
  \<open>scenario_env sb passed failed local_result\<close> the sandbox runner returns \<open>sb\<close> whatever
  it is asked, the parser of pytest's report is \<open>report_parser passed failed\<close>, and the
  local test run returns \<open>local_result\<close>. None of them raises.
\<close>

definition scenario_env :: "SandboxResult \<Rightarrow> int \<Rightarrow> int \<Rightarrow> UnitTestResult \<Rightarrow> env" where
  "scenario_env sb passed failed local_result =
     \<lparr>sandbox_run = (\<lambda>name target_file workspace_dir cmd timeout stream_logs. Inr sb),
      parse_python_unit_test_results = report_parser passed failed,
      run_python_unit_tests = (\<lambda>dir filename. Inr local_result)\<rparr>"

definition no_tests_result :: UnitTestResult where
  "no_tests_result =
     \<lparr>command = [''pytest''], returncode = Some 5, stdout = ''no tests ran'', stderr = [],
      num_passed = 0, num_failed = 0\<rparr>"

text \<open>
  Two sandbox results: a setup phase that builds and succeeds, followed by one passed
  test; and a run with no setup markers at all, in which three tests pass and one fails.
\<close>

definition scenario_a :: SandboxResult where
  "scenario_a =
     \<lparr>exit_code = 0,
      sb_stdout = ''::setup:start::'' @ [newline] @ ''building'' @ [newline]
                    @ ''::setup:end:0::'' @ [newline] @ ''1 passed'',
      sb_stderr = []\<rparr>"


section \<open>Evaluation of the marker functions\<close>

lemmas marker_defs = split_stream_def str_find_def SETUP_START_def match_end_def
  SETUP_END_PREFIX_def SETUP_END_SUFFIX_def is_digit_def strip_nl_def is_nl_def newline_def
  py_int_def digit_val_def

section \<open>Facts about searching\<close>

lemma find_index_Some_prefix:
  "find_index sub s = Some i \<Longrightarrow> i \<le> length s \<and> prefix sub (drop i s)"
proof (induction s arbitrary: i)
  case Nil
  then show ?case by (simp split: if_splits)
next
  case (Cons c cs)
  show ?case
  proof (cases "prefix sub (c # cs)")
    case True
    with Cons.prems show ?thesis by simp
  next
    case False
    with Cons.prems obtain j where j: "find_index sub cs = Some j" "i = Suc j"
      by auto
    with Cons.IH [of j] show ?thesis by simp
  qed
qed

lemma find_index_None_sublist: "find_index sub s = None \<longleftrightarrow> \<not> sublist sub s"
  by (induction s) (auto simp: sublist_Cons_right)

lemma str_find_int:
  "str_find s sub = int i \<longleftrightarrow> find_index sub s = Some i"
  by (simp add: str_find_def split: option.splits)

lemma str_find_decomp:
  assumes "str_find s sub = int i"
  shows "s = take i s @ sub @ drop (i + length sub) s"
proof -
  from assms have "find_index sub s = Some i" by (simp add: str_find_int)
  then have "prefix sub (drop i s)" by (simp add: find_index_Some_prefix)
  then obtain r where r: "drop i s = sub @ r" by (auto simp: prefix_def)
  then have "drop (length sub) (drop i s) = r" by simp
  then have "r = drop (i + length sub) s" by (simp add: add.commute)
  with r have "drop i s = sub @ drop (i + length sub) s" by simp
  then show ?thesis by (metis append_take_drop_id)
qed

lemma split_stream_after_start:
  assumes "str_find (pre @ SETUP_START @ rest) SETUP_START = int (length pre)"
  shows "split_stream (pre @ SETUP_START @ rest) =
           (case search_end rest of
              None \<Rightarrow> ([], strip_nl rest, Some (- 1))
            | Some (s, e, g) \<Rightarrow>
                (strip_nl (drop e rest), strip_nl (take s rest), Some (py_int g)))"
proof -
  have "drop (nat (int (length pre) + int (length SETUP_START))) (pre @ SETUP_START @ rest) = rest"
    by (simp add: nat_add_distrib)
  then show ?thesis
    unfolding split_stream_def Let_def assms by (simp split: option.splits)
qed

lemma match_end_Nil: "match_end [] = None"
  by (simp add: match_end_def SETUP_END_PREFIX_def)

lemma not_digit_colon: "\<not> is_digit (CHR '':'')"
  by (simp add: is_digit_def)

lemma match_end_marker:
  assumes "ds \<noteq> []" and "\<forall>c\<in>set ds. is_digit c"
  shows "match_end (SETUP_END_PREFIX @ ds @ SETUP_END_SUFFIX @ post) =
           Some (length SETUP_END_PREFIX + length ds + length SETUP_END_SUFFIX, ds)"
proof -
  have tw: "takeWhile is_digit (ds @ SETUP_END_SUFFIX @ post) = ds"
    using assms(2) by (simp add: SETUP_END_SUFFIX_def not_digit_colon)
  have dw: "dropWhile is_digit (ds @ SETUP_END_SUFFIX @ post) = SETUP_END_SUFFIX @ post"
    using assms(2) by (simp add: SETUP_END_SUFFIX_def not_digit_colon)
  show ?thesis
    unfolding match_end_def Let_def using assms(1) by (simp add: tw dw)
qed

lemma match_end_Some:
  assumes "match_end s = Some (n, ds)"
  shows "ds \<noteq> [] \<and> (\<forall>c\<in>set ds. is_digit c) \<and>
         n = length SETUP_END_PREFIX + length ds + length SETUP_END_SUFFIX \<and>
         s = SETUP_END_PREFIX @ ds @ SETUP_END_SUFFIX @ drop n s"
proof -
  from assms have p: "prefix SETUP_END_PREFIX s"
    by (simp add: match_end_def split: if_splits)
  define r where "r = drop (length SETUP_END_PREFIX) s"
  from p have s: "s = SETUP_END_PREFIX @ r"
    by (auto simp: prefix_def r_def)
  from assms p have ds: "ds = takeWhile is_digit r" and ne: "ds \<noteq> []"
    and suf: "prefix SETUP_END_SUFFIX (dropWhile is_digit r)"
    and n: "n = length SETUP_END_PREFIX + length ds + length SETUP_END_SUFFIX"
    by (auto simp: match_end_def Let_def r_def split: if_splits)
  from suf obtain t where t: "dropWhile is_digit r = SETUP_END_SUFFIX @ t"
    by (auto simp: prefix_def)
  have r: "r = ds @ SETUP_END_SUFFIX @ t"
    using takeWhile_dropWhile_id [of is_digit r] ds t by simp
  have "drop n s = t"
    by (subst s, subst r) (simp add: n)
  with s r have "s = SETUP_END_PREFIX @ ds @ SETUP_END_SUFFIX @ drop n s" by simp
  moreover have "\<forall>c\<in>set ds. is_digit c"
    unfolding ds by (auto dest: set_takeWhileD)
  ultimately show ?thesis using ne n by blast
qed

lemma search_end_first:
  assumes "\<forall>k<length mid. match_end (drop k (mid @ m)) = None"
    and "match_end m = Some (n, ds)"
  shows "search_end (mid @ m) = Some (length mid, length mid + n, ds)"
  using assms
proof (induction mid)
  case Nil
  then obtain c cs where "m = c # cs"
    by (cases m) (auto simp: match_end_Nil)
  with Nil show ?case by simp
next
  case (Cons x xs)
  from Cons.prems(1) have "match_end (drop 0 ((x # xs) @ m)) = None" by blast
  then have h: "match_end (x # xs @ m) = None" by simp
  have "\<forall>k<length xs. match_end (drop k (xs @ m)) = None"
  proof (intro allI impI)
    fix k assume "k < length xs"
    then have "Suc k < length (x # xs)" by simp
    with Cons.prems(1) have "match_end (drop (Suc k) ((x # xs) @ m)) = None" by blast
    then show "match_end (drop k (xs @ m)) = None" by simp
  qed
  with Cons.IH Cons.prems(2) have "search_end (xs @ m) = Some (length xs, length xs + n, ds)"
    by blast
  with h show ?case by simp
qed

lemma search_end_Some:
  assumes "search_end r = Some (s, e, g)"
  shows "s \<le> length r \<and> match_end (drop s r) = Some (e - s, g) \<and> s \<le> e \<and>
         (\<forall>k<s. match_end (drop k r) = None)"
  using assms
proof (induction r arbitrary: s e)
  case Nil
  then show ?case by simp
next
  case (Cons c cs)
  show ?case
  proof (cases "match_end (c # cs)")
    case (Some p)
    with Cons.prems show ?thesis by (cases p) auto
  next
    case None
    with Cons.prems obtain s' e' where
      r: "search_end cs = Some (s', e', g)" and s: "s = Suc s'" and e: "e = Suc e'"
      by auto
    from Cons.IH [OF r] have ih: "s' \<le> length cs" "match_end (drop s' cs) = Some (e' - s', g)"
      "s' \<le> e'" "\<forall>k<s'. match_end (drop k cs) = None" by auto
    have "\<forall>k<s. match_end (drop k (c # cs)) = None"
    proof (intro allI impI)
      fix k assume k: "k < s"
      show "match_end (drop k (c # cs)) = None"
      proof (cases k)
        case 0
        with None show ?thesis by simp
      next
        case (Suc j)
        with k s have "j < s'" by simp
        with ih(4) Suc show ?thesis by simp
      qed
    qed
    with ih s e show ?thesis by simp
  qed
qed

lemma search_end_decomp:
  assumes "search_end r = Some (s, e, g)"
  shows "r = take s r @ SETUP_END_PREFIX @ g @ SETUP_END_SUFFIX @ drop e r \<and>
         g \<noteq> [] \<and> (\<forall>c\<in>set g. is_digit c) \<and> s \<le> e"
proof -
  from search_end_Some [OF assms] have m: "match_end (drop s r) = Some (e - s, g)"
    and le: "s \<le> e" by auto
  from match_end_Some [OF m] have g: "g \<noteq> []" "\<forall>c\<in>set g. is_digit c"
    and d: "drop s r = SETUP_END_PREFIX @ g @ SETUP_END_SUFFIX @ drop (e - s) (drop s r)"
    by auto
  from le have e2: "drop (e - s) (drop s r) = drop e r" by simp
  from d have "drop s r = SETUP_END_PREFIX @ g @ SETUP_END_SUFFIX @ drop e r"
    by (simp only: e2)
  then have "r = take s r @ SETUP_END_PREFIX @ g @ SETUP_END_SUFFIX @ drop e r"
    by (metis append_take_drop_id)
  with g le show ?thesis by blast
qed

lemma strip_nl_decomp:
  "s = takeWhile is_nl s @ strip_nl s @ rev (takeWhile is_nl (rev (dropWhile is_nl s)))"
proof -
  define t where "t = dropWhile is_nl s"
  have "rev t = takeWhile is_nl (rev t) @ dropWhile is_nl (rev t)" by simp
  then have "rev (rev t) = rev (takeWhile is_nl (rev t) @ dropWhile is_nl (rev t))"
    by (rule arg_cong)
  then have "t = rev (dropWhile is_nl (rev t)) @ rev (takeWhile is_nl (rev t))"
    by (simp only: rev_rev_ident rev_append)
  moreover have "s = takeWhile is_nl s @ t" by (simp add: t_def)
  ultimately show ?thesis by (simp add: strip_nl_def t_def)
qed

lemma strip_nl_padding:
  "\<exists>a b. set (a @ b) \<subseteq> {newline} \<and> s = a @ strip_nl s @ b"
proof -
  let ?a = "takeWhile is_nl s"
  let ?b = "rev (takeWhile is_nl (rev (dropWhile is_nl s)))"
  have "set ?a \<subseteq> {newline}" by (auto dest: set_takeWhileD simp: is_nl_def)
  moreover have "set ?b \<subseteq> {newline}" by (auto dest: set_takeWhileD simp: is_nl_def)
  ultimately have "set (?a @ ?b) \<subseteq> {newline}" by simp
  with strip_nl_decomp [of s] show ?thesis by blast
qed

lemma sublist_strip_nl: "sublist (strip_nl s) s"
proof -
  have "sublist (strip_nl s)
          (takeWhile is_nl s @ strip_nl s @ rev (takeWhile is_nl (rev (dropWhile is_nl s))))"
    by (rule sublist_appendI)
  then show ?thesis by (simp only: strip_nl_decomp [symmetric])
qed

lemma search_end_None_iff:
  "search_end r = None \<longleftrightarrow> (\<forall>k. match_end (drop k r) = None)"
proof
  assume n: "search_end r = None"
  show "\<forall>k. match_end (drop k r) = None"
    using n
  proof (induction r)
    case Nil
    then show ?case by (simp add: match_end_Nil)
  next
    case (Cons c cs)
    from Cons.prems have h: "match_end (c # cs) = None" and t: "search_end cs = None"
      by (auto split: option.splits)
    show ?case
    proof
      fix k show "match_end (drop k (c # cs)) = None"
        using h Cons.IH [OF t] by (cases k) auto
    qed
  qed
next
  assume a: "\<forall>k. match_end (drop k r) = None"
  show "search_end r = None"
  proof (cases "search_end r")
    case None
    then show ?thesis .
  next
    case (Some p)
    obtain s e g where "p = (s, e, g)" by (cases p)
    with Some search_end_Some [of r s e g] a show ?thesis by simp
  qed
qed

lemma search_end_marker_inside:
  assumes "ds \<noteq> []" and "\<forall>c\<in>set ds. is_digit c"
  shows "search_end (p @ SETUP_END_PREFIX @ ds @ SETUP_END_SUFFIX @ q) \<noteq> None"
proof -
  have "match_end (drop (length p) (p @ SETUP_END_PREFIX @ ds @ SETUP_END_SUFFIX @ q)) \<noteq> None"
    using match_end_marker [OF assms, of q] by simp
  then show ?thesis by (auto simp only: search_end_None_iff)
qed

lemma search_end_sublist:
  assumes "sublist x s" and "search_end s = None"
  shows "search_end x = None"
proof (cases "search_end x")
  case None
  then show ?thesis .
next
  case (Some t)
  obtain a e g where t: "t = (a, e, g)" by (cases t)
  from search_end_decomp [of x a e g] Some t
  have x: "x = take a x @ SETUP_END_PREFIX @ g @ SETUP_END_SUFFIX @ drop e x"
    and g: "g \<noteq> []" "\<forall>c\<in>set g. is_digit c" by auto
  from assms(1) obtain p q where s: "s = p @ x @ q" by (auto simp: sublist_def)
  have "s = (p @ take a x) @ SETUP_END_PREFIX @ g @ SETUP_END_SUFFIX @ (drop e x @ q)"
    by (subst s, subst x) simp
  with search_end_marker_inside [OF g, of "p @ take a x" "drop e x @ q"] assms(2)
  show ?thesis by simp
qed

lemma find_index_sublist:
  assumes "sublist x s" and "find_index sub s = None"
  shows "find_index sub x = None"
proof -
  from assms(2) have "\<not> sublist sub s" by (simp add: find_index_None_sublist)
  with assms(1) sublist_order.order_trans [of sub x s] have "\<not> sublist sub x" by blast
  then show ?thesis by (simp add: find_index_None_sublist)
qed

lemma search_end_before_first:
  assumes "\<forall>k<length mid. match_end (drop k (mid @ m)) = None"
  shows "search_end mid = None"
proof (cases "search_end mid")
  case None
  then show ?thesis .
next
  case (Some t)
  obtain a e g where t: "t = (a, e, g)" by (cases t)
  from Some t have sm: "search_end mid = Some (a, e, g)" by simp
  from search_end_Some [OF sm]
  have le: "a \<le> length mid" and ma: "match_end (drop a mid) = Some (e - a, g)"
    by blast+
  define u where "u = drop (e - a) (drop a mid)"
  from match_end_Some [OF ma]
  have d: "drop a mid = SETUP_END_PREFIX @ g @ SETUP_END_SUFFIX @ u"
    and g: "g \<noteq> []" "\<forall>c\<in>set g. is_digit c"
    unfolding u_def by blast+
  have "length (drop a mid) = length (SETUP_END_PREFIX @ g @ SETUP_END_SUFFIX @ u)"
    by (simp only: d)
  then have lt: "a < length mid" using g(1) by (cases g) auto
  have "drop a (mid @ m) = drop a mid @ m" using le by simp
  also have "\<dots> = (SETUP_END_PREFIX @ g @ SETUP_END_SUFFIX @ u) @ m" by (simp only: d)
  finally have "drop a (mid @ m) = SETUP_END_PREFIX @ g @ SETUP_END_SUFFIX @ (u @ m)"
    by simp
  then have some: "match_end (drop a (mid @ m)) \<noteq> None"
    by (simp only: match_end_marker [OF g]) simp
  from assms have "a < length mid \<longrightarrow> match_end (drop a (mid @ m)) = None"
    by (rule spec)
  with lt have "match_end (drop a (mid @ m)) = None" by (rule mp [rotated])
  with some show ?thesis by contradiction
qed

lemma py_int_nonneg_aux:
  "\<forall>c\<in>set ds. is_digit c \<Longrightarrow> 0 \<le> a \<Longrightarrow> 0 \<le> foldl (\<lambda>a c. 10 * a + digit_val c) a ds"
proof (induction ds arbitrary: a)
  case Nil
  then show ?case by simp
next
  case (Cons d ds)
  from Cons.prems(1) have "is_digit d" by simp
  then have "0 \<le> digit_val d" by (auto simp: is_digit_def digit_val_def)
  with Cons.prems(2) have "0 \<le> 10 * a + digit_val d" by simp
  with Cons show ?case by simp
qed

lemma py_int_nonneg: "\<forall>c\<in>set ds. is_digit c \<Longrightarrow> 0 \<le> py_int ds"
  unfolding py_int_def by (rule py_int_nonneg_aux) simp_all

lemma split_stream_at:
  assumes found: "str_find output SETUP_START = int i"
  shows "split_stream output =
           (case search_end (drop (i + length SETUP_START) output) of
              None \<Rightarrow> ([], strip_nl (drop (i + length SETUP_START) output), Some (- 1))
            | Some (s, e, g) \<Rightarrow>
                (strip_nl (drop e (drop (i + length SETUP_START) output)),
                 strip_nl (take s (drop (i + length SETUP_START) output)),
                 Some (py_int g)))"
proof -
  have "nat (int i + int (length SETUP_START)) = i + length SETUP_START"
    by (simp add: nat_add_distrib)
  then show ?thesis
    unfolding split_stream_def Let_def found by (simp split: option.splits)
qed

section \<open>Command results\<close>

text \<open>
  Claim C9. For every CommandResult, \<open>success\<close> is true if and only if the return code
  is exactly zero; an absent return code and a nonzero one both give false, so an absent
  return code is never taken for success.
\<close>

theorem success_iff_returncode_zero:
  "(success r \<longleftrightarrow> returncode r = Some 0) \<and>
   (returncode r = None \<longrightarrow> \<not> success r) \<and>
   (\<forall>n. returncode r = Some n \<and> n \<noteq> 0 \<longrightarrow> \<not> success r)"
  by (cases "returncode r") (simp_all add: success_def)

theorem success_iff_returncode_zero_witness:
  "success \<lparr>command = [], returncode = Some 0, stdout = ''ok'', stderr = []\<rparr> \<and>
   \<not> success \<lparr>command = [], returncode = None, stdout = ''ok'', stderr = []\<rparr> \<and>
   \<not> success \<lparr>command = [], returncode = Some 137, stdout = ''ok'', stderr = []\<rparr>"
  using success_iff_returncode_zero
    [of "\<lparr>command = [], returncode = Some 0, stdout = ''ok'', stderr = []\<rparr>"]
    success_iff_returncode_zero
    [of "\<lparr>command = [], returncode = None, stdout = ''ok'', stderr = []\<rparr>"]
    success_iff_returncode_zero
    [of "\<lparr>command = [], returncode = Some 137, stdout = ''ok'', stderr = []\<rparr>"]
  by simp

section \<open>Reconciliation\<close>

text \<open>
  Claim C1. Let the splitter give \<open>(test_out, setup_out, code_out)\<close> on the sandbox's
  stdout and \<open>(test_err, setup_err, code_err)\<close> on its stderr. If the parsed setup code
  (stdout's when present, else stderr's) is the sentinel \<open>-1\<close>, or both test slices are
  empty, then the test result's return code is absent and the setup result's return code
  is the sandbox's exit code, whatever codes were parsed.
\<close>

theorem reconcile_promotion:
  assumes out: "split_stream (sb_stdout sb) = (test_out, setup_out, code_out)"
    and err: "split_stream (sb_stderr sb) = (test_err, setup_err, code_err)"
    and promote: "(if code_out \<noteq> None then code_out else code_err) = Some (- 1)
                  \<or> (test_out = [] \<and> test_err = [])"
  shows "returncode (fst (parse_sandbox_result sb)) = None \<and>
         returncode (snd (parse_sandbox_result sb)) = Some (exit_code sb)"
  using promote by (auto simp add: parse_sandbox_result_def out err Let_def)

theorem reconcile_promotion_witness:
  "split_stream (''::setup:start::'' @ [newline] @ ''installing deps...'')
     = ([], ''installing deps...'', Some (- 1)) \<and>
   split_stream [] = ([], [], None) \<and>
   returncode (fst (parse_sandbox_result
     \<lparr>exit_code = 137, sb_stdout = ''::setup:start::'' @ [newline] @ ''installing deps...'',
      sb_stderr = []\<rparr>)) = None \<and>
   returncode (snd (parse_sandbox_result
     \<lparr>exit_code = 137, sb_stdout = ''::setup:start::'' @ [newline] @ ''installing deps...'',
      sb_stderr = []\<rparr>)) = Some 137"
proof -
  let ?sb = "\<lparr>exit_code = 137,
              sb_stdout = ''::setup:start::'' @ [newline] @ ''installing deps...'',
              sb_stderr = []\<rparr>"
  have out: "split_stream (sb_stdout ?sb) = ([], ''installing deps...'', Some (- 1))"
    by (simp add: marker_defs)
  have err: "split_stream (sb_stderr ?sb) = ([], [], None)"
    by (simp add: marker_defs)
  have p: "(if Some (- 1 :: int) \<noteq> None then Some (- 1) else None) = Some (- 1)
           \<or> (([]::string) = [] \<and> ([]::string) = [])"
    by simp
  from reconcile_promotion [OF out err p] out err show ?thesis by simp
qed

section \<open>The splitter and its markers\<close>

text \<open>
  Claim C10. For every stream that contains the start marker, with its first occurrence
  at index \<open>i\<close>, the stream is the text before that occurrence, the marker and the
  rest; and the result of the splitter is the same for every other text put before the
  marker (as long as the marker's first occurrence stays where that text ends). So the
  text preceding the first start marker reaches neither the test content nor the setup
  content: it is discarded.
\<close>

theorem split_discards_text_before_start:
  assumes found: "str_find output SETUP_START = int i"
  shows "output = take i output @ SETUP_START @ drop (i + length SETUP_START) output \<and>
         (\<forall>pre'. str_find (pre' @ SETUP_START @ drop (i + length SETUP_START) output)
                    SETUP_START = int (length pre') \<longrightarrow>
                  split_stream (pre' @ SETUP_START @ drop (i + length SETUP_START) output)
                    = split_stream output)"
proof -
  define rest where "rest = drop (i + length SETUP_START) output"
  have dec: "output = take i output @ SETUP_START @ rest"
    unfolding rest_def using found by (rule str_find_decomp)
  from found have "find_index SETUP_START output = Some i" by (simp add: str_find_int)
  then have "i \<le> length output" by (simp add: find_index_Some_prefix)
  then have len: "length (take i output) = i" by simp
  have "str_find (take i output @ SETUP_START @ rest) SETUP_START = int (length (take i output))"
    using found dec len by simp
  from split_stream_after_start [OF this] dec
  have here: "split_stream output =
           (case search_end rest of
              None \<Rightarrow> ([], strip_nl rest, Some (- 1))
            | Some (s, e, g) \<Rightarrow>
                (strip_nl (drop e rest), strip_nl (take s rest), Some (py_int g)))"
    by simp
  have "\<forall>pre'. str_find (pre' @ SETUP_START @ rest) SETUP_START = int (length pre') \<longrightarrow>
          split_stream (pre' @ SETUP_START @ rest) = split_stream output"
    by (simp add: split_stream_after_start here)
  with dec show ?thesis unfolding rest_def by blast
qed

theorem split_discards_text_before_start_witness:
  "str_find (''noise'' @ [newline] @ ''::setup:start::a::setup:end:0::b'') SETUP_START = 6 \<and>
   split_stream (''noise'' @ [newline] @ ''::setup:start::a::setup:end:0::b'')
     = (''b'', ''a'', Some 0) \<and>
   split_stream (''other text::setup:start::a::setup:end:0::b'')
     = split_stream (''noise'' @ [newline] @ ''::setup:start::a::setup:end:0::b'')"
proof -
  let ?out = "''noise'' @ [newline] @ ''::setup:start::a::setup:end:0::b''"
  have f: "str_find ?out SETUP_START = int 6"
    by (simp add: marker_defs)
  have r: "drop (6 + length SETUP_START) ?out = ''a::setup:end:0::b''"
    by (simp add: SETUP_START_def)
  have f': "str_find (''other text'' @ SETUP_START @ ''a::setup:end:0::b'') SETUP_START
              = int (length ''other text'')"
    by (simp add: marker_defs)
  from split_discards_text_before_start [OF f]
  have "str_find (''other text'' @ SETUP_START @ drop (6 + length SETUP_START) ?out)
            SETUP_START = int (length ''other text'') \<longrightarrow>
        split_stream (''other text'' @ SETUP_START @ drop (6 + length SETUP_START) ?out)
          = split_stream ?out"
    by blast
  with f' have "split_stream (''other text'' @ SETUP_START @ ''a::setup:end:0::b'')
          = split_stream ?out"
    by (simp only: r)
  then have e: "split_stream (''other text::setup:start::a::setup:end:0::b'') = split_stream ?out"
    by (simp add: SETUP_START_def)
  have v: "split_stream ?out = (''b'', ''a'', Some 0)"
    by (simp add: marker_defs)
  from f e v show ?thesis by simp
qed

lemma split_first_markers:
  assumes first_start:
      "str_find (pre @ SETUP_START @ mid @ SETUP_END_PREFIX @ ds @ SETUP_END_SUFFIX @ post)
         SETUP_START = int (length pre)"
    and nonempty: "ds \<noteq> []"
    and digits: "\<forall>c\<in>set ds. is_digit c"
    and first_end:
      "\<forall>k<length mid.
         match_end (drop k (mid @ SETUP_END_PREFIX @ ds @ SETUP_END_SUFFIX @ post)) = None"
  shows "split_stream (pre @ SETUP_START @ mid @ SETUP_END_PREFIX @ ds @ SETUP_END_SUFFIX @ post)
           = (strip_nl post, strip_nl mid, Some (py_int ds)) \<and>
         0 \<le> py_int ds \<and>
         search_end (strip_nl mid) = None \<and>
         (find_index SETUP_START mid = None \<longrightarrow>
            find_index SETUP_START (strip_nl mid) = None) \<and>
         (find_index SETUP_START post = None \<longrightarrow>
            find_index SETUP_START (strip_nl post) = None) \<and>
         (search_end post = None \<longrightarrow> search_end (strip_nl post) = None)"
proof -
  let ?m = "SETUP_END_PREFIX @ ds @ SETUP_END_SUFFIX @ post"
  let ?n = "length SETUP_END_PREFIX + length ds + length SETUP_END_SUFFIX"
  have m: "match_end ?m = Some (?n, ds)"
    using nonempty digits by (rule match_end_marker)
  from search_end_first [OF first_end m]
  have se: "search_end (mid @ ?m) = Some (length mid, length mid + ?n, ds)" .
  have "split_stream (pre @ SETUP_START @ mid @ ?m)
          = (strip_nl (drop (length mid + ?n) (mid @ ?m)),
             strip_nl (take (length mid) (mid @ ?m)), Some (py_int ds))"
    using split_stream_after_start [OF first_start] by (simp only: se option.case prod.case)
  then have 1: "split_stream (pre @ SETUP_START @ mid @ ?m)
          = (strip_nl post, strip_nl mid, Some (py_int ds))"
    by simp
  have 2: "0 \<le> py_int ds" using digits by (rule py_int_nonneg)
  have "search_end mid = None" using first_end by (rule search_end_before_first)
  with sublist_strip_nl have 3: "search_end (strip_nl mid) = None"
    by (rule search_end_sublist)
  have 4: "find_index SETUP_START mid = None \<longrightarrow> find_index SETUP_START (strip_nl mid) = None"
    using find_index_sublist [OF sublist_strip_nl] by blast
  have 5: "find_index SETUP_START post = None \<longrightarrow> find_index SETUP_START (strip_nl post) = None"
    using find_index_sublist [OF sublist_strip_nl] by blast
  have 6: "search_end post = None \<longrightarrow> search_end (strip_nl post) = None"
    using search_end_sublist [OF sublist_strip_nl] by blast
  from 1 2 3 4 5 6 show ?thesis by (intro conjI)
qed

text \<open>
  Claim C5. Take a text with one setup region: its first start marker is followed by
  \<open>mid\<close>, an end marker with the digits \<open>ds\<close>, and \<open>post\<close>; no match of the end pattern
  begins inside \<open>mid\<close>, and neither \<open>mid\<close> nor \<open>post\<close> holds another marker. Then the
  splitter returns \<open>post\<close> and \<open>mid\<close>, each with its boundary newlines removed, and the
  integer the digits denote, which is not negative; and no marker token, start or end,
  appears in either returned content.
\<close>

theorem split_both_markers:
  assumes first_start:
      "str_find (pre @ SETUP_START @ mid @ SETUP_END_PREFIX @ ds @ SETUP_END_SUFFIX @ post)
         SETUP_START = int (length pre)"
    and nonempty: "ds \<noteq> []"
    and digits: "\<forall>c\<in>set ds. is_digit c"
    and first_end:
      "\<forall>k<length mid.
         match_end (drop k (mid @ SETUP_END_PREFIX @ ds @ SETUP_END_SUFFIX @ post)) = None"
    and no_start_in_mid: "find_index SETUP_START mid = None"
    and no_start_in_post: "find_index SETUP_START post = None"
    and no_end_in_post: "search_end post = None"
  shows "split_stream (pre @ SETUP_START @ mid @ SETUP_END_PREFIX @ ds @ SETUP_END_SUFFIX @ post)
           = (strip_nl post, strip_nl mid, Some (py_int ds)) \<and>
         0 \<le> py_int ds \<and>
         find_index SETUP_START (strip_nl mid) = None \<and>
         search_end (strip_nl mid) = None \<and>
         find_index SETUP_START (strip_nl post) = None \<and>
         search_end (strip_nl post) = None"
proof -
  note f = split_first_markers [OF first_start nonempty digits first_end]
  from f have 1: "split_stream
          (pre @ SETUP_START @ mid @ SETUP_END_PREFIX @ ds @ SETUP_END_SUFFIX @ post)
           = (strip_nl post, strip_nl mid, Some (py_int ds))"
    by (rule conjunct1)
  from f have 2: "0 \<le> py_int ds" by (simp only:)
  from f have 3: "search_end (strip_nl mid) = None" by (simp only:)
  have 4: "find_index SETUP_START (strip_nl mid) = None"
    using sublist_strip_nl no_start_in_mid by (rule find_index_sublist)
  have 5: "find_index SETUP_START (strip_nl post) = None"
    using sublist_strip_nl no_start_in_post by (rule find_index_sublist)
  have 6: "search_end (strip_nl post) = None"
    using sublist_strip_nl no_end_in_post by (rule search_end_sublist)
  from 1 2 4 3 5 6 show ?thesis by (intro conjI)
qed

theorem split_both_markers_witness:
  "split_stream (''::setup:start::'' @ [newline] @ ''building'' @ [newline]
                  @ ''::setup:end:0::'' @ [newline] @ ''1 passed'')
     = (''1 passed'', ''building'', Some 0) \<and>
   find_index SETUP_START ''building'' = None \<and>
   search_end ''building'' = None \<and>
   find_index SETUP_START ''1 passed'' = None \<and>
   search_end ''1 passed'' = None"
proof -
  let ?mid = "[newline] @ ''building'' @ [newline]"
  let ?post = "[newline] @ ''1 passed''"
  let ?rest = "?mid @ SETUP_END_PREFIX @ ''0'' @ SETUP_END_SUFFIX @ ?post"
  have h1: "str_find ([] @ SETUP_START @ ?rest) SETUP_START = int (length ([]::string))"
    by (simp add: marker_defs)
  have h2: "''0'' \<noteq> []" by simp
  have h3: "\<forall>c\<in>set ''0''. is_digit c" by (simp add: is_digit_def)
  have "search_end ?rest = Some (10, 25, ''0'')"
    by (simp add: marker_defs)
  from search_end_Some [OF this] have "\<forall>k<10. match_end (drop k ?rest) = None" by blast
  moreover have "length ?mid = 10" by simp
  ultimately have h4: "\<forall>k<length ?mid. match_end (drop k ?rest) = None" by (simp only:)
  have h5: "find_index SETUP_START ?mid = None" by (simp add: marker_defs)
  have h6: "find_index SETUP_START ?post = None" by (simp add: marker_defs)
  have h7: "search_end ?post = None" by (simp add: marker_defs)
  have s1: "strip_nl ?mid = ''building''" by (simp add: marker_defs)
  have s2: "strip_nl ?post = ''1 passed''" by (simp add: marker_defs)
  have p: "py_int ''0'' = 0" by (simp add: marker_defs)
  have t: "[] @ SETUP_START @ ?rest
             = ''::setup:start::'' @ [newline] @ ''building'' @ [newline]
                  @ ''::setup:end:0::'' @ [newline] @ ''1 passed''"
    by (simp add: marker_defs)
  from split_both_markers [OF h1 h2 h3 h4 h5 h6 h7]
  show ?thesis unfolding s1 s2 p t by (simp only:)
qed

text \<open>
  Claim C7, as the code has it. When the splitter finds the start marker at index \<open>i\<close>
  and then the end marker with digits \<open>g\<close>, the portion of the stream after the start
  marker is the setup content, the end marker and the test content, in this order, each
  content padded on both sides with newlines only (the ones \<^verbatim>\<open>strip\<close> removed). The
  plain concatenation of the two contents differs from the portion without its marker as
  soon as a newline is stripped: the counterexample is the stream of a build followed by
  one passed test.
\<close>

theorem split_concat_up_to_newlines:
  assumes found: "str_find output SETUP_START = int i"
    and ended: "search_end (drop (i + length SETUP_START) output) = Some (s, e, g)"
  shows "\<exists>a b c d. set (a @ b @ c @ d) \<subseteq> {newline} \<and>
           drop (i + length SETUP_START) output =
             a @ fst (snd (split_stream output)) @ b @
             SETUP_END_PREFIX @ g @ SETUP_END_SUFFIX @
             c @ fst (split_stream output) @ d"
proof -
  define rest where "rest = drop (i + length SETUP_START) output"
  have sp: "split_stream output
              = (strip_nl (drop e rest), strip_nl (take s rest), Some (py_int g))"
    using split_stream_at [OF found] ended unfolding rest_def by simp
  from search_end_decomp [OF ended]
  have dec: "rest = take s rest @ SETUP_END_PREFIX @ g @ SETUP_END_SUFFIX @ drop e rest"
    unfolding rest_def by blast
  obtain a b where ab: "set (a @ b) \<subseteq> {newline}"
    "take s rest = a @ strip_nl (take s rest) @ b"
    using strip_nl_padding [of "take s rest"] by blast
  obtain c d where cd: "set (c @ d) \<subseteq> {newline}"
    "drop e rest = c @ strip_nl (drop e rest) @ d"
    using strip_nl_padding [of "drop e rest"] by blast
  have nl: "set (a @ b @ c @ d) \<subseteq> {newline}" using ab(1) cd(1) by simp
  have "rest = (a @ strip_nl (take s rest) @ b) @ SETUP_END_PREFIX @ g @ SETUP_END_SUFFIX
                 @ (c @ strip_nl (drop e rest) @ d)"
    using dec ab(2) cd(2) by metis
  then have "rest = a @ fst (snd (split_stream output)) @ b @
                 SETUP_END_PREFIX @ g @ SETUP_END_SUFFIX @ c @ fst (split_stream output) @ d"
    by (simp add: sp)
  with nl show ?thesis unfolding rest_def by blast
qed

theorem split_concat_counterexample:
  "drop (length SETUP_START)
     (''::setup:start::'' @ [newline] @ ''building'' @ [newline]
        @ ''::setup:end:0::'' @ [newline] @ ''1 passed'')
     = ([newline] @ ''building'' @ [newline]) @ ''::setup:end:0::'' @ ([newline] @ ''1 passed'') \<and>
   fst (snd (split_stream (''::setup:start::'' @ [newline] @ ''building'' @ [newline]
        @ ''::setup:end:0::'' @ [newline] @ ''1 passed''))) @
   fst (split_stream (''::setup:start::'' @ [newline] @ ''building'' @ [newline]
        @ ''::setup:end:0::'' @ [newline] @ ''1 passed''))
     = ''building1 passed'' \<and>
   ''building1 passed'' \<noteq> ([newline] @ ''building'' @ [newline]) @ ([newline] @ ''1 passed'')"
  by (simp add: marker_defs)

theorem split_concat_up_to_newlines_witness:
  "str_find (''::setup:start::'' @ [newline] @ ''building'' @ [newline]
        @ ''::setup:end:0::'' @ [newline] @ ''1 passed'') SETUP_START = 0 \<and>
   (\<exists>a b c d. set (a @ b @ c @ d) \<subseteq> {newline} \<and>
      [newline] @ ''building'' @ [newline] @ ''::setup:end:0::'' @ [newline] @ ''1 passed''
        = a @ ''building'' @ b @ ''::setup:end:0::'' @ c @ ''1 passed'' @ d)"
proof -
  let ?out = "''::setup:start::'' @ [newline] @ ''building'' @ [newline]
        @ ''::setup:end:0::'' @ [newline] @ ''1 passed''"
  have f: "str_find ?out SETUP_START = int 0" by (simp add: marker_defs)
  have r: "drop (0 + length SETUP_START) ?out
             = [newline] @ ''building'' @ [newline] @ ''::setup:end:0::'' @ [newline] @ ''1 passed''"
    by (simp add: marker_defs)
  have e: "search_end (drop (0 + length SETUP_START) ?out) = Some (10, 25, ''0'')"
    by (simp add: marker_defs)
  have v: "split_stream ?out = (''1 passed'', ''building'', Some 0)"
    by (simp add: marker_defs)
  have m: "SETUP_END_PREFIX @ ''0'' @ SETUP_END_SUFFIX = ''::setup:end:0::''"
    by (simp add: marker_defs)
  from split_concat_up_to_newlines [OF f e]
  have "\<exists>a b c d. set (a @ b @ c @ d) \<subseteq> {newline} \<and>
      [newline] @ ''building'' @ [newline] @ ''::setup:end:0::'' @ [newline] @ ''1 passed''
        = a @ ''building'' @ b @ (SETUP_END_PREFIX @ ''0'' @ SETUP_END_SUFFIX) @ c @ ''1 passed'' @ d"
    unfolding r v by simp
  then have "\<exists>a b c d. set (a @ b @ c @ d) \<subseteq> {newline} \<and>
      [newline] @ ''building'' @ [newline] @ ''::setup:end:0::'' @ [newline] @ ''1 passed''
        = a @ ''building'' @ b @ ''::setup:end:0::'' @ c @ ''1 passed'' @ d"
    unfolding m .
  with f show ?thesis by simp
qed

section \<open>The action: raised errors and published results\<close>

text \<open>
  Claim C2, at a concrete input. With no sandbox (\<^verbatim>\<open>None\<close>) the action runs the test file
  locally and pushes the result under the test-result key; no setup result is produced.
  The invocation then reads \<^verbatim>\<open>setup_result\<close>, a variable that is only assigned in the
  sandboxed branch, and ends with \<^verbatim>\<open>UnboundLocalError\<close> instead of completing.
\<close>

theorem local_run_raises_unbound_setup_result:
  "run_unit_tests_action
     (scenario_env \<lparr>exit_code = 0, sb_stdout = [], sb_stderr = []\<rparr> 0 0 no_tests_result)
     ''test_x.py'' ''work'' ''test_result'' (Some ''setup_result'') PNone False 300
   = \<lparr>effects = [LocalRun ''work'' ''test_x.py'',
                  Push ''test_result'' (UnitTest no_tests_result)],
      sandbox_obj = None,
      raised = Some (UnboundLocalError ''setup_result'')\<rparr>"
  by (simp add: run_unit_tests_action_def publish_def scenario_env_def)

text \<open>
  Claim C6, as the code has it. A sandbox parameter that is truthy and not a string makes
  the action raise \<^verbatim>\<open>ValueError\<close> with no effect at all: no sandbox run, no local run,
  nothing pushed. A falsy value of any type (\<^verbatim>\<open>None\<close>, \<^verbatim>\<open>False\<close>, \<^verbatim>\<open>0\<close>, an empty
  string or list) is treated as no sandbox: the invocation is the local one. The
  counterexample is the empty list, a value that is not a string and yet starts a local
  run.
\<close>

theorem non_string_sandbox:
  "(truthy resolved_sandbox \<and> \<not> isinstance_str resolved_sandbox \<longrightarrow>
      run_unit_tests_action e resolved_filename resolved_dir resolved_property
          resolved_setup_property resolved_sandbox resolved_stream_logs resolved_timeout
        = \<lparr>effects = [], sandbox_obj = None,
           raised = Some (ValueError ''Sandbox must be a string name of a sandbox'')\<rparr>) \<and>
   (\<not> truthy resolved_sandbox \<longrightarrow>
      run_unit_tests_action e resolved_filename resolved_dir resolved_property
          resolved_setup_property resolved_sandbox resolved_stream_logs resolved_timeout
        = run_unit_tests_action e resolved_filename resolved_dir resolved_property
          resolved_setup_property PNone resolved_stream_logs resolved_timeout)"
proof (intro conjI impI)
  assume a: "truthy resolved_sandbox \<and> \<not> isinstance_str resolved_sandbox"
  then show "run_unit_tests_action e resolved_filename resolved_dir resolved_property
          resolved_setup_property resolved_sandbox resolved_stream_logs resolved_timeout
        = \<lparr>effects = [], sandbox_obj = None,
           raised = Some (ValueError ''Sandbox must be a string name of a sandbox'')\<rparr>"
    by (cases resolved_sandbox) (simp_all add: run_unit_tests_action_def)
next
  assume "\<not> truthy resolved_sandbox"
  then show "run_unit_tests_action e resolved_filename resolved_dir resolved_property
          resolved_setup_property resolved_sandbox resolved_stream_logs resolved_timeout
        = run_unit_tests_action e resolved_filename resolved_dir resolved_property
          resolved_setup_property PNone resolved_stream_logs resolved_timeout"
    by (simp add: run_unit_tests_action_def)
qed

theorem non_string_sandbox_counterexample:
  "\<not> isinstance_str (PList []) \<and>
   effects (run_unit_tests_action
     (scenario_env \<lparr>exit_code = 0, sb_stdout = [], sb_stderr = []\<rparr> 0 0 no_tests_result)
     ''test_x.py'' ''work'' ''test_result'' (Some ''setup_result'') (PList []) False 300)
   = [LocalRun ''work'' ''test_x.py'', Push ''test_result'' (UnitTest no_tests_result)] \<and>
   raised (run_unit_tests_action
     (scenario_env \<lparr>exit_code = 0, sb_stdout = [], sb_stderr = []\<rparr> 0 0 no_tests_result)
     ''test_x.py'' ''work'' ''test_result'' (Some ''setup_result'') (PList []) False 300)
   \<noteq> Some (ValueError ''Sandbox must be a string name of a sandbox'')"
  by (simp add: run_unit_tests_action_def publish_def scenario_env_def)

theorem non_string_sandbox_witness:
  "run_unit_tests_action
     (scenario_env \<lparr>exit_code = 0, sb_stdout = [], sb_stderr = []\<rparr> 0 0 no_tests_result)
     ''test_x.py'' ''work'' ''test_result'' (Some ''setup_result'') (PInt 5) False 300
   = \<lparr>effects = [], sandbox_obj = None,
      raised = Some (ValueError ''Sandbox must be a string name of a sandbox'')\<rparr> \<and>
   run_unit_tests_action
     (scenario_env \<lparr>exit_code = 0, sb_stdout = [], sb_stderr = []\<rparr> 0 0 no_tests_result)
     ''test_x.py'' ''work'' ''test_result'' (Some ''setup_result'') (PInt 0) False 300
   = run_unit_tests_action
     (scenario_env \<lparr>exit_code = 0, sb_stdout = [], sb_stderr = []\<rparr> 0 0 no_tests_result)
     ''test_x.py'' ''work'' ''test_result'' (Some ''setup_result'') PNone False 300"
  using non_string_sandbox
    [of "PInt 5" "scenario_env \<lparr>exit_code = 0, sb_stdout = [], sb_stderr = []\<rparr> 0 0 no_tests_result"
        "''test_x.py''" "''work''" "''test_result''" "Some ''setup_result''" False 300]
    non_string_sandbox
    [of "PInt 0" "scenario_env \<lparr>exit_code = 0, sb_stdout = [], sb_stderr = []\<rparr> 0 0 no_tests_result"
        "''test_x.py''" "''work''" "''test_result''" "Some ''setup_result''" False 300]
  by simp

lemma sandboxed_run_outcome:
  assumes name: "name \<noteq> []"
    and run: "sandbox_run e name resolved_filename resolved_dir
                [pytest_command resolved_filename] resolved_timeout resolved_stream_logs = Inr sb"
  shows "run_unit_tests_action e resolved_filename resolved_dir resolved_property
           resolved_setup_property (PStr name) resolved_stream_logs resolved_timeout =
         (let effs = [SandboxRun name resolved_filename resolved_dir
                        [pytest_command resolved_filename] resolved_timeout resolved_stream_logs];
              syn = synthesize e [pytest_command resolved_filename] sb
                      (fst (parse_sandbox_result sb))
          in case snd syn of
               Inl err \<Rightarrow> \<lparr>effects = effs, sandbox_obj = Some (fst syn), raised = Some err\<rparr>
             | Inr result \<Rightarrow>
                 publish effs (Some (fst syn)) resolved_property resolved_setup_property
                   result (Bound (Some (snd (parse_sandbox_result sb)))))"
  using name
  by (simp add: run_unit_tests_action_def run Let_def split: prod.splits sum.splits)


lemma scenario_a_parse:
  "parse_sandbox_result scenario_a
   = (\<lparr>command = [], returncode = Some 0, stdout = ''1 passed'', stderr = []\<rparr>,
      \<lparr>command = [], returncode = Some 0, stdout = ''building'', stderr = []\<rparr>)"
  by (simp add: scenario_a_def parse_sandbox_result_def marker_defs Let_def)




lemma publish_bound:
  "publish effs sbo resolved_property resolved_setup_property result (Bound (Some r)) =
     \<lparr>effects = effs @ [Push resolved_property (UnitTest result)] @
                  (case resolved_setup_property of
                     None \<Rightarrow> []
                   | Some k \<Rightarrow> if k \<noteq> [] then [Push k (Command r)] else []),
      sandbox_obj = sbo, raised = None\<rparr>"
  by (simp add: publish_def Let_def split: option.splits)

lemma parse_sandbox_result_streams:
  "stdout (fst (parse_sandbox_result sb)) = fst (split_stream (sb_stdout sb)) \<and>
   stderr (fst (parse_sandbox_result sb)) = fst (split_stream (sb_stderr sb))"
  by (simp add: parse_sandbox_result_def Let_def split: prod.splits)

lemma sandboxed_outcome_absent:
  assumes name: "name \<noteq> []"
    and run: "sandbox_run e name resolved_filename resolved_dir
                [pytest_command resolved_filename] resolved_timeout resolved_stream_logs = Inr sb"
    and absent: "returncode (fst (parse_sandbox_result sb)) = None"
  shows "run_unit_tests_action e resolved_filename resolved_dir resolved_property
           resolved_setup_property (PStr name) resolved_stream_logs resolved_timeout =
         publish [SandboxRun name resolved_filename resolved_dir
                    [pytest_command resolved_filename] resolved_timeout resolved_stream_logs]
           (Some sb) resolved_property resolved_setup_property
           \<lparr>command = [pytest_command resolved_filename], returncode = None,
             stdout = stdout (fst (parse_sandbox_result sb)),
             stderr = stderr (fst (parse_sandbox_result sb)),
             num_passed = 0, num_failed = 0\<rparr>
           (Bound (Some (snd (parse_sandbox_result sb))))"
  by (simp add: sandboxed_run_outcome [OF name run] synthesize_def absent Let_def)

lemma sandboxed_outcome_parsed:
  assumes name: "name \<noteq> []"
    and run: "sandbox_run e name resolved_filename resolved_dir
                [pytest_command resolved_filename] resolved_timeout resolved_stream_logs = Inr sb"
    and present: "returncode (fst (parse_sandbox_result sb)) \<noteq> None"
    and parsed: "parse_python_unit_test_results e
                   (sb\<lparr>sb_stdout := stdout (fst (parse_sandbox_result sb)),
                       sb_stderr := stderr (fst (parse_sandbox_result sb))\<rparr>) = Inr r0"
  shows "run_unit_tests_action e resolved_filename resolved_dir resolved_property
           resolved_setup_property (PStr name) resolved_stream_logs resolved_timeout =
         publish [SandboxRun name resolved_filename resolved_dir
                    [pytest_command resolved_filename] resolved_timeout resolved_stream_logs]
           (Some (sb\<lparr>sb_stdout := stdout (fst (parse_sandbox_result sb)),
                       sb_stderr := stderr (fst (parse_sandbox_result sb))\<rparr>))
           resolved_property resolved_setup_property
           (r0\<lparr>command := [pytest_command resolved_filename]\<rparr>)
           (Bound (Some (snd (parse_sandbox_result sb))))"
  using present
  by (simp add: sandboxed_run_outcome [OF name run] synthesize_def parsed Let_def)

lemma sandboxed_outcome_parse_error:
  assumes name: "name \<noteq> []"
    and run: "sandbox_run e name resolved_filename resolved_dir
                [pytest_command resolved_filename] resolved_timeout resolved_stream_logs = Inr sb"
    and present: "returncode (fst (parse_sandbox_result sb)) \<noteq> None"
    and failed: "parse_python_unit_test_results e
                   (sb\<lparr>sb_stdout := stdout (fst (parse_sandbox_result sb)),
                       sb_stderr := stderr (fst (parse_sandbox_result sb))\<rparr>) = Inl err"
  shows "run_unit_tests_action e resolved_filename resolved_dir resolved_property
           resolved_setup_property (PStr name) resolved_stream_logs resolved_timeout =
         \<lparr>effects = [SandboxRun name resolved_filename resolved_dir
                    [pytest_command resolved_filename] resolved_timeout resolved_stream_logs],
          sandbox_obj = Some (sb\<lparr>sb_stdout := stdout (fst (parse_sandbox_result sb)),
                       sb_stderr := stderr (fst (parse_sandbox_result sb))\<rparr>),
          raised = Some err\<rparr>"
  using present
  by (simp add: sandboxed_run_outcome [OF name run] synthesize_def failed Let_def)

text \<open>
  Claim C4, as the code has it. In a sandboxed invocation in which the runner returns a
  result, the \<^verbatim>\<open>SandboxResult\<close> object keeps its exit code to the end. It is left as it
  is when the reconciled test return code is absent; when a test return code is present,
  its \<^verbatim>\<open>stdout\<close> and \<^verbatim>\<open>stderr\<close> are assigned the test slices of the original streams
  before the object is handed to the parser. Every setup \<^verbatim>\<open>CommandResult\<close> pushed is the
  one reconciliation built, unchanged. The \<^verbatim>\<open>UnitTestResult\<close> pushed is the one the
  action constructs when the test return code is absent, and otherwise the parser's
  result with its \<^verbatim>\<open>command\<close> assigned afterwards. The counterexample is a run with a
  succeeding setup phase: afterwards the object's \<^verbatim>\<open>stdout\<close> is the test slice only, and
  the pushed test result carries a command that the parser's result did not.
\<close>

theorem sandbox_result_after_action:
  assumes name: "name \<noteq> []"
    and run: "sandbox_run e name resolved_filename resolved_dir
                [pytest_command resolved_filename] resolved_timeout resolved_stream_logs = Inr sb"
    and out: "out = run_unit_tests_action e resolved_filename resolved_dir resolved_property
                resolved_setup_property (PStr name) resolved_stream_logs resolved_timeout"
    and test: "test = fst (parse_sandbox_result sb)"
    and assigned: "sb2 = sb\<lparr>sb_stdout := fst (split_stream (sb_stdout sb)),
                              sb_stderr := fst (split_stream (sb_stderr sb))\<rparr>"
  shows "(\<exists>sb'. sandbox_obj out = Some sb' \<and> exit_code sb' = exit_code sb \<and>
            (returncode test = None \<longrightarrow> sb' = sb) \<and>
            (returncode test \<noteq> None \<longrightarrow> sb' = sb2)) \<and>
         (\<forall>k c. Push k (Command c) \<in> set (effects out) \<longrightarrow>
            c = snd (parse_sandbox_result sb)) \<and>
         (\<forall>k r. Push k (UnitTest r) \<in> set (effects out) \<longrightarrow>
            (returncode test = None \<longrightarrow>
               r = \<lparr>command = [pytest_command resolved_filename], returncode = None,
                     stdout = stdout test, stderr = stderr test,
                     num_passed = 0, num_failed = 0\<rparr>) \<and>
            (returncode test \<noteq> None \<longrightarrow>
               (\<exists>r0. parse_python_unit_test_results e sb2 = Inr r0 \<and>
                     r = r0\<lparr>command := [pytest_command resolved_filename]\<rparr>)))"
proof -
  have sb2: "sb2 = sb\<lparr>sb_stdout := stdout (fst (parse_sandbox_result sb)),
                         sb_stderr := stderr (fst (parse_sandbox_result sb))\<rparr>"
    unfolding assigned by (simp add: parse_sandbox_result_streams)
  have ex2: "exit_code sb2 = exit_code sb" unfolding assigned by simp
  show ?thesis
  proof (cases "returncode test = None")
    case True
    then have absent: "returncode (fst (parse_sandbox_result sb)) = None"
      by (simp add: test)
    have o: "out = publish [SandboxRun name resolved_filename resolved_dir
                    [pytest_command resolved_filename] resolved_timeout resolved_stream_logs]
           (Some sb) resolved_property resolved_setup_property
           \<lparr>command = [pytest_command resolved_filename], returncode = None,
             stdout = stdout test, stderr = stderr test,
             num_passed = 0, num_failed = 0\<rparr>
           (Bound (Some (snd (parse_sandbox_result sb))))"
      unfolding out test by (rule sandboxed_outcome_absent [OF name run absent])
    have 1: "\<exists>sb'. sandbox_obj out = Some sb' \<and> exit_code sb' = exit_code sb \<and>
            (returncode test = None \<longrightarrow> sb' = sb) \<and>
            (returncode test \<noteq> None \<longrightarrow> sb' = sb2)"
      using True by (simp add: o publish_bound)
    have 2: "\<forall>k c. Push k (Command c) \<in> set (effects out) \<longrightarrow>
            c = snd (parse_sandbox_result sb)"
      by (simp add: o publish_bound split: option.splits)
    have 3: "\<forall>k r. Push k (UnitTest r) \<in> set (effects out) \<longrightarrow>
            (returncode test = None \<longrightarrow>
               r = \<lparr>command = [pytest_command resolved_filename], returncode = None,
                     stdout = stdout test, stderr = stderr test,
                     num_passed = 0, num_failed = 0\<rparr>) \<and>
            (returncode test \<noteq> None \<longrightarrow>
               (\<exists>r0. parse_python_unit_test_results e sb2 = Inr r0 \<and>
                     r = r0\<lparr>command := [pytest_command resolved_filename]\<rparr>))"
      using True by (simp add: o publish_bound split: option.splits)
    from 1 2 3 show ?thesis by (intro conjI)
  next
    case False
    then have present: "returncode (fst (parse_sandbox_result sb)) \<noteq> None"
      by (simp add: test)
    show ?thesis
    proof (cases "parse_python_unit_test_results e sb2")
      case (Inl err)
      then have failed: "parse_python_unit_test_results e
                   (sb\<lparr>sb_stdout := stdout (fst (parse_sandbox_result sb)),
                       sb_stderr := stderr (fst (parse_sandbox_result sb))\<rparr>) = Inl err"
        by (simp only: sb2)
      have o: "out = \<lparr>effects = [SandboxRun name resolved_filename resolved_dir
                    [pytest_command resolved_filename] resolved_timeout resolved_stream_logs],
          sandbox_obj = Some sb2, raised = Some err\<rparr>"
        unfolding out sb2 by (rule sandboxed_outcome_parse_error [OF name run present failed])
      have 1: "\<exists>sb'. sandbox_obj out = Some sb' \<and> exit_code sb' = exit_code sb \<and>
            (returncode test = None \<longrightarrow> sb' = sb) \<and>
            (returncode test \<noteq> None \<longrightarrow> sb' = sb2)"
        using False by (simp add: o ex2 del: not_None_eq)
      have 2: "\<forall>k c. Push k (Command c) \<in> set (effects out) \<longrightarrow>
            c = snd (parse_sandbox_result sb)"
        by (simp add: o)
      have 3: "\<forall>k r. Push k (UnitTest r) \<in> set (effects out) \<longrightarrow>
            (returncode test = None \<longrightarrow>
               r = \<lparr>command = [pytest_command resolved_filename], returncode = None,
                     stdout = stdout test, stderr = stderr test,
                     num_passed = 0, num_failed = 0\<rparr>) \<and>
            (returncode test \<noteq> None \<longrightarrow>
               (\<exists>r0. parse_python_unit_test_results e sb2 = Inr r0 \<and>
                     r = r0\<lparr>command := [pytest_command resolved_filename]\<rparr>))"
        by (simp add: o)
      from 1 2 3 show ?thesis by (intro conjI)
    next
      case (Inr r0)
      then have parsed: "parse_python_unit_test_results e
                   (sb\<lparr>sb_stdout := stdout (fst (parse_sandbox_result sb)),
                       sb_stderr := stderr (fst (parse_sandbox_result sb))\<rparr>) = Inr r0"
        by (simp only: sb2)
      have o: "out = publish [SandboxRun name resolved_filename resolved_dir
                    [pytest_command resolved_filename] resolved_timeout resolved_stream_logs]
           (Some sb2) resolved_property resolved_setup_property
           (r0\<lparr>command := [pytest_command resolved_filename]\<rparr>)
           (Bound (Some (snd (parse_sandbox_result sb))))"
        unfolding out sb2 by (rule sandboxed_outcome_parsed [OF name run present parsed])
      have 1: "\<exists>sb'. sandbox_obj out = Some sb' \<and> exit_code sb' = exit_code sb \<and>
            (returncode test = None \<longrightarrow> sb' = sb) \<and>
            (returncode test \<noteq> None \<longrightarrow> sb' = sb2)"
        using False by (simp add: o publish_bound ex2 del: not_None_eq)
      have 2: "\<forall>k c. Push k (Command c) \<in> set (effects out) \<longrightarrow>
            c = snd (parse_sandbox_result sb)"
        by (simp add: o publish_bound split: option.splits)
      have 3: "\<forall>k r. Push k (UnitTest r) \<in> set (effects out) \<longrightarrow>
            (returncode test = None \<longrightarrow>
               r = \<lparr>command = [pytest_command resolved_filename], returncode = None,
                     stdout = stdout test, stderr = stderr test,
                     num_passed = 0, num_failed = 0\<rparr>) \<and>
            (returncode test \<noteq> None \<longrightarrow>
               (\<exists>r0. parse_python_unit_test_results e sb2 = Inr r0 \<and>
                     r = r0\<lparr>command := [pytest_command resolved_filename]\<rparr>))"
        using False Inr by (simp add: o publish_bound del: not_None_eq split: option.splits)
      from 1 2 3 show ?thesis by (intro conjI)
    qed
  qed
qed

theorem sandbox_result_after_action_counterexample:
  "sandbox_run (scenario_env scenario_a 1 0 no_tests_result) ''python'' ''test_x.py'' ''work''
     [pytest_command ''test_x.py''] 300 False = Inr scenario_a \<and>
   sandbox_obj (run_unit_tests_action (scenario_env scenario_a 1 0 no_tests_result)
     ''test_x.py'' ''work'' ''test_result'' (Some ''setup_result'') (PStr ''python'') False 300)
   = Some \<lparr>exit_code = 0, sb_stdout = ''1 passed'', sb_stderr = []\<rparr> \<and>
   sb_stdout scenario_a \<noteq> ''1 passed'' \<and>
   parse_python_unit_test_results (scenario_env scenario_a 1 0 no_tests_result)
     \<lparr>exit_code = 0, sb_stdout = ''1 passed'', sb_stderr = []\<rparr>
   = Inr \<lparr>command = [], returncode = Some 0, stdout = ''1 passed'', stderr = [],
          num_passed = 1, num_failed = 0\<rparr> \<and>
   effects (run_unit_tests_action (scenario_env scenario_a 1 0 no_tests_result)
     ''test_x.py'' ''work'' ''test_result'' (Some ''setup_result'') (PStr ''python'') False 300)
   = [SandboxRun ''python'' ''test_x.py'' ''work'' [pytest_command ''test_x.py''] 300 False,
      Push ''test_result''
        (UnitTest \<lparr>command = [pytest_command ''test_x.py''], returncode = Some 0,
                    stdout = ''1 passed'', stderr = [], num_passed = 1, num_failed = 0\<rparr>),
      Push ''setup_result''
        (Command \<lparr>command = [], returncode = Some 0, stdout = ''building'', stderr = []\<rparr>)]"
proof -
  have 1: "sandbox_run (scenario_env scenario_a 1 0 no_tests_result) ''python'' ''test_x.py''
     ''work'' [pytest_command ''test_x.py''] 300 False = Inr scenario_a"
    by (simp add: scenario_env_def)
  have 2: "sandbox_obj (run_unit_tests_action (scenario_env scenario_a 1 0 no_tests_result)
     ''test_x.py'' ''work'' ''test_result'' (Some ''setup_result'') (PStr ''python'') False 300)
   = Some \<lparr>exit_code = 0, sb_stdout = ''1 passed'', sb_stderr = []\<rparr>"
    by (simp add: run_unit_tests_action_def scenario_env_def report_parser_def
          scenario_a_parse synthesize_def publish_def Let_def)
       (simp add: scenario_a_def)
  have 3: "sb_stdout scenario_a \<noteq> ''1 passed''"
    by (simp add: scenario_a_def)
  have 4: "parse_python_unit_test_results (scenario_env scenario_a 1 0 no_tests_result)
     \<lparr>exit_code = 0, sb_stdout = ''1 passed'', sb_stderr = []\<rparr>
   = Inr \<lparr>command = [], returncode = Some 0, stdout = ''1 passed'', stderr = [],
          num_passed = 1, num_failed = 0\<rparr>"
    by (simp add: scenario_env_def report_parser_def)
  have 5: "effects (run_unit_tests_action (scenario_env scenario_a 1 0 no_tests_result)
     ''test_x.py'' ''work'' ''test_result'' (Some ''setup_result'') (PStr ''python'') False 300)
   = [SandboxRun ''python'' ''test_x.py'' ''work'' [pytest_command ''test_x.py''] 300 False,
      Push ''test_result''
        (UnitTest \<lparr>command = [pytest_command ''test_x.py''], returncode = Some 0,
                    stdout = ''1 passed'', stderr = [], num_passed = 1, num_failed = 0\<rparr>),
      Push ''setup_result''
        (Command \<lparr>command = [], returncode = Some 0, stdout = ''building'', stderr = []\<rparr>)]"
    by (simp add: run_unit_tests_action_def scenario_env_def report_parser_def
          scenario_a_parse synthesize_def publish_def Let_def)
       (simp add: scenario_a_def)
  from 1 2 3 4 5 show ?thesis by (intro conjI)
qed

theorem sandbox_result_after_action_witness:
  "(\<exists>sb'. sandbox_obj (run_unit_tests_action (scenario_env scenario_a 1 0 no_tests_result)
       ''test_x.py'' ''work'' ''test_result'' (Some ''setup_result'') (PStr ''python'')
       False 300) = Some sb' \<and>
     exit_code sb' = 0 \<and> sb_stdout sb' = ''1 passed'' \<and> sb_stderr sb' = []) \<and>
   (\<exists>sb'. sandbox_obj (run_unit_tests_action
       (scenario_env \<lparr>exit_code = 137, sb_stdout = ''::setup:start::boom'', sb_stderr = []\<rparr>
          0 0 no_tests_result)
       ''test_x.py'' ''work'' ''test_result'' (Some ''setup_result'') (PStr ''python'')
       False 300) = Some sb' \<and>
     sb' = \<lparr>exit_code = 137, sb_stdout = ''::setup:start::boom'', sb_stderr = []\<rparr>)"
proof -
  let ?ea = "scenario_env scenario_a 1 0 no_tests_result"
  let ?sbb = "\<lparr>exit_code = 137, sb_stdout = ''::setup:start::boom'', sb_stderr = []\<rparr>"
  let ?eb = "scenario_env ?sbb 0 0 no_tests_result"
  let ?outa = "run_unit_tests_action ?ea ''test_x.py'' ''work'' ''test_result''
                 (Some ''setup_result'') (PStr ''python'') False 300"
  let ?outb = "run_unit_tests_action ?eb ''test_x.py'' ''work'' ''test_result''
                 (Some ''setup_result'') (PStr ''python'') False 300"
  let ?sa2 = "scenario_a\<lparr>sb_stdout := fst (split_stream (sb_stdout scenario_a)),
                          sb_stderr := fst (split_stream (sb_stderr scenario_a))\<rparr>"
  let ?sb2 = "?sbb\<lparr>sb_stdout := fst (split_stream (sb_stdout ?sbb)),
                    sb_stderr := fst (split_stream (sb_stderr ?sbb))\<rparr>"
  have n: "''python'' \<noteq> []" by simp
  have ra: "sandbox_run ?ea ''python'' ''test_x.py'' ''work''
              [pytest_command ''test_x.py''] 300 False = Inr scenario_a"
    by (simp add: scenario_env_def)
  have rb: "sandbox_run ?eb ''python'' ''test_x.py'' ''work''
              [pytest_command ''test_x.py''] 300 False = Inr ?sbb"
    by (simp add: scenario_env_def)
  have pa: "returncode (fst (parse_sandbox_result scenario_a)) \<noteq> None"
    by (simp add: scenario_a_parse)
  have sa: "fst (split_stream (sb_stdout scenario_a)) = ''1 passed''"
    "fst (split_stream (sb_stderr scenario_a)) = []" "exit_code scenario_a = 0"
    by (simp_all add: scenario_a_def marker_defs)
  have pb: "returncode (fst (parse_sandbox_result ?sbb)) = None"
    by (simp add: parse_sandbox_result_def marker_defs Let_def)
  have a: "\<exists>sb'. sandbox_obj ?outa = Some sb' \<and>
     exit_code sb' = 0 \<and> sb_stdout sb' = ''1 passed'' \<and> sb_stderr sb' = []"
  proof -
    from sandbox_result_after_action [OF n ra refl refl refl,
        of "''test_result''" "Some ''setup_result''"]
    have "\<exists>sb'. sandbox_obj ?outa = Some sb' \<and> exit_code sb' = exit_code scenario_a \<and>
            (returncode (fst (parse_sandbox_result scenario_a)) = None \<longrightarrow>
               sb' = scenario_a) \<and>
            (returncode (fst (parse_sandbox_result scenario_a)) \<noteq> None \<longrightarrow> sb' = ?sa2)"
      by (rule conjunct1)
    then obtain sb' where o: "sandbox_obj ?outa = Some sb'"
      and e: "exit_code sb' = exit_code scenario_a"
      and i: "returncode (fst (parse_sandbox_result scenario_a)) \<noteq> None \<longrightarrow> sb' = ?sa2"
      by (elim exE conjE)
    from i pa have c: "sb' = ?sa2" by (rule mp)
    have c1: "sb_stdout sb' = ''1 passed''" unfolding c by (simp add: sa)
    have c2: "sb_stderr sb' = []" unfolding c by (simp add: sa)
    from e have c0: "exit_code sb' = 0" by (simp only: sa)
    from o c0 c1 c2 show ?thesis by (intro exI conjI)
  qed
  have b: "\<exists>sb'. sandbox_obj ?outb = Some sb' \<and> sb' = ?sbb"
  proof -
    from sandbox_result_after_action [OF n rb refl refl refl,
        of "''test_result''" "Some ''setup_result''"]
    have "\<exists>sb'. sandbox_obj ?outb = Some sb' \<and> exit_code sb' = exit_code ?sbb \<and>
            (returncode (fst (parse_sandbox_result ?sbb)) = None \<longrightarrow> sb' = ?sbb) \<and>
            (returncode (fst (parse_sandbox_result ?sbb)) \<noteq> None \<longrightarrow> sb' = ?sb2)"
      by (rule conjunct1)
    then obtain sb' where o: "sandbox_obj ?outb = Some sb'"
      and i: "returncode (fst (parse_sandbox_result ?sbb)) = None \<longrightarrow> sb' = ?sbb"
      by (elim exE conjE)
    from i pb have "sb' = ?sbb" by (rule mp)
    with o show ?thesis by (intro exI conjI)
  qed
  from a b show ?thesis by (intro conjI)
qed

section \<open>Quitting\<close>







end
